theory Spec2Isabelle
  imports Main "HOL-Library.AList" "HOL-Library.Sublist"
begin

section \<open>JavaScript values and objects\<close>

text \<open>
  The service in \<^verbatim>\<open>src/services/project/project-mutation.service.ts\<close> handles loosely
  typed values: rows of the \<^verbatim>\<open>projects\<close> table come back from the store client as
  \<^verbatim>\<open>any\<close>, and the caller's \<^verbatim>\<open>projectData\<close> is spread into the update payload.
  The values are therefore modelled as JavaScript values. Numbers are restricted to
  integers (no field the service tests is numeric); a \<^verbatim>\<open>File\<close>/\<^verbatim>\<open>Blob\<close> is named by a
  string.
\<close>

datatype jsval =
    JUndefined
  | JNull
  | JBool bool
  | JNum int
  | JStr string
  | JFile string
  | JArr "jsval list"

text \<open>
  An object is the list of its own properties in insertion order; a property lookup
  reads the first entry of a key.
\<close>

type_synonym jsobj = "(string \<times> jsval) list"

text \<open>JavaScript truthiness, as tested by \<^verbatim>\<open>if (x)\<close>, \<^verbatim>\<open>!x\<close>, \<^verbatim>\<open>x || y\<close> and \<^verbatim>\<open>x && y\<close>.\<close>

fun truthy :: "jsval \<Rightarrow> bool" where
  "truthy JUndefined = False"
| "truthy JNull = False"
| "truthy (JBool b) = b"
| "truthy (JNum n) = (n \<noteq> 0)"
| "truthy (JStr s) = (s \<noteq> [])"
| "truthy (JFile f) = True"
| "truthy (JArr xs) = True"

text \<open>\<^verbatim>\<open>a || b\<close>\<close>

definition js_or :: "jsval \<Rightarrow> jsval \<Rightarrow> jsval" where
  "js_or a b = (if truthy a then a else b)"

text \<open>\<^verbatim>\<open>typeof v === 'string'\<close>\<close>

fun is_string :: "jsval \<Rightarrow> bool" where
  "is_string (JStr s) = True"
| "is_string _ = False"

text \<open>\<^verbatim>\<open>obj.k\<close>: a missing property reads as \<^verbatim>\<open>undefined\<close>.\<close>

definition get_prop :: "jsobj \<Rightarrow> string \<Rightarrow> jsval" where
  "get_prop obj k = (case map_of obj k of None \<Rightarrow> JUndefined | Some v \<Rightarrow> v)"

section \<open>Errors, collaborator calls and the call log\<close>

text \<open>
  The payload of an error reported by the store client or thrown by the image helper is
  opaque to the service, which rethrows it unchanged.
\<close>

type_synonym store_error = string

text \<open>
  The error taxonomy of the specification. The source throws \<^verbatim>\<open>new Error(msg)\<close> for the
  first two kinds (the message is kept), rethrows the collaborator's error for the third,
  and the JavaScript runtime raises the fourth when a property of \<^verbatim>\<open>null\<close> is read or a
  value that is not a function is called.
\<close>

datatype error =
    ValidationError string
  | AuthorizationError string
  | StoreError store_error
  | TypeError

text \<open>
  Every call the service issues to a collaborator, with its arguments, and every line it
  writes to the console:
  \<^item> \<open>StoreInsert r\<close>: \<^verbatim>\<open>supabase.from('projects').insert([r]).select('*').single()\<close>
  \<^item> \<open>StoreSelectSingle i\<close>: \<^verbatim>\<open>.select('*').eq('id', i).single()\<close>
  \<^item> \<open>StoreSelectMaybeSingle i\<close>: \<^verbatim>\<open>.select('*').eq('id', i).maybeSingle()\<close>
  \<^item> \<open>StoreUpdate p i\<close>: \<^verbatim>\<open>.update(p).eq('id', i).select('*').single()\<close>
  \<^item> \<open>StoreUpdateMatch p m\<close>: \<^verbatim>\<open>.update(p).match(m).select('*').single()\<close>
  \<^item> \<open>StoreDelete i\<close>: \<^verbatim>\<open>.delete().eq('id', i)\<close>
  \<^item> \<open>UploadImage u f\<close>: \<^verbatim>\<open>uploadProjectImage(u, f)\<close>
  \<^item> \<open>DeleteImage url\<close>: \<^verbatim>\<open>deleteProjectImage(url)\<close>
  \<^item> \<open>ConsoleError msg e\<close>: \<^verbatim>\<open>console.error(msg, e)\<close>
\<close>

datatype event =
    StoreInsert jsobj
  | StoreSelectSingle string
  | StoreSelectMaybeSingle string
  | StoreUpdate jsobj string
  | StoreUpdateMatch jsobj jsobj
  | StoreDelete string
  | UploadImage string jsval
  | DeleteImage jsval
  | ConsoleError string store_error

fun is_store_call :: "event \<Rightarrow> bool" where
  "is_store_call (StoreInsert r) = True"
| "is_store_call (StoreSelectSingle i) = True"
| "is_store_call (StoreSelectMaybeSingle i) = True"
| "is_store_call (StoreUpdate p i) = True"
| "is_store_call (StoreUpdateMatch p m) = True"
| "is_store_call (StoreDelete i) = True"
| "is_store_call _ = False"

fun is_image_call :: "event \<Rightarrow> bool" where
  "is_image_call (UploadImage u f) = True"
| "is_image_call (DeleteImage url) = True"
| "is_image_call _ = False"

fun is_update_call :: "event \<Rightarrow> bool" where
  "is_update_call (StoreUpdate p i) = True"
| "is_update_call (StoreUpdateMatch p m) = True"
| "is_update_call _ = False"

fun is_image_delete :: "event \<Rightarrow> bool" where
  "is_image_delete (DeleteImage url) = True"
| "is_image_delete _ = False"

text \<open>
  The collaborators, the store client \<^verbatim>\<open>supabase\<close> and the image helpers imported from
  \<^verbatim>\<open>./project-image.service\<close>, are parameters of the service. Each is a function of the
  calls issued so far and of the call being made, so that it may answer the same call
  differently at different times. A store call resolves to the pair \<^verbatim>\<open>{ data, error }\<close>,
  \<open>None\<close> being \<^verbatim>\<open>null\<close>; an image call either resolves to a value or rejects with an
  error, which the service lets through unchanged (a \<open>StoreError\<close> in the taxonomy).
\<close>

record world =
  supabase :: "event list \<Rightarrow> event \<Rightarrow> jsobj option \<times> store_error option"
  image_service :: "event list \<Rightarrow> event \<Rightarrow> store_error + jsval"

text \<open>
  An \<^verbatim>\<open>async\<close> function body: it takes the log of the calls issued so far and returns
  the value it resolves to, or the error it rejects with, and the extended log.
\<close>

type_synonym 'a prog = "event list \<Rightarrow> (error + 'a) \<times> event list"

definition ret :: "'a \<Rightarrow> 'a prog" where
  "ret x h = (Inr x, h)"

definition throw :: "error \<Rightarrow> 'a prog" where
  "throw e h = (Inl e, h)"

text \<open>Sequencing: a thrown error skips the rest of the body.\<close>

definition bindE :: "'a prog \<Rightarrow> ('a \<Rightarrow> 'b prog) \<Rightarrow> 'b prog" where
  "bindE m f h = (case m h of (Inl e, h') \<Rightarrow> (Inl e, h') | (Inr x, h') \<Rightarrow> f x h')"

definition store_call :: "world \<Rightarrow> event \<Rightarrow> (jsobj option \<times> store_error option) prog" where
  "store_call w c h = (Inr (supabase w h c), h @ [c])"

definition image_call :: "world \<Rightarrow> event \<Rightarrow> jsval prog" where
  "image_call w c h =
     (case image_service w h c of
        Inl e \<Rightarrow> (Inl (StoreError e), h @ [c])
      | Inr v \<Rightarrow> (Inr v, h @ [c]))"

definition uploadProjectImage :: "world \<Rightarrow> string \<Rightarrow> jsval \<Rightarrow> jsval prog" where
  "uploadProjectImage w userId file = image_call w (UploadImage userId file)"

definition deleteProjectImage :: "world \<Rightarrow> jsval \<Rightarrow> jsval prog" where
  "deleteProjectImage w url = image_call w (DeleteImage url)"

definition console_error :: "string \<Rightarrow> store_error \<Rightarrow> unit prog" where
  "console_error msg e h = (Inr (), h @ [ConsoleError msg e])"

text \<open>\<^verbatim>\<open>if (error) throw error; return data;\<close>\<close>

definition throw_or_return :: "jsobj option \<times> store_error option \<Rightarrow> (jsobj option) prog" where
  "throw_or_return r =
     (case r of
        (data, Some e) \<Rightarrow> throw (StoreError e)
      | (data, None) \<Rightarrow> ret data)"

section \<open>The project mutation service\<close>

subsection \<open>createNewProject\<close>

text \<open>The object literal \<^verbatim>\<open>newProject\<close> (lines 18 to 28).\<close>

definition newProject :: "string \<Rightarrow> jsobj \<Rightarrow> jsval \<Rightarrow> jsobj" where
  "newProject userId projectData imageUrl =
     [(''title'', get_prop projectData ''title''),
      (''description'', get_prop projectData ''description''),
      (''status'', js_or (get_prop projectData ''status'') (JStr ''planning'')),
      (''timeline_status'', js_or (get_prop projectData ''timeline_status'') (JStr ''ongoing'')),
      (''start_date'', js_or (get_prop projectData ''start_date'') JNull),
      (''end_date'', js_or (get_prop projectData ''end_date'') JNull),
      (''created_by'', JStr userId),
      (''members'', js_or (get_prop projectData ''members'') (JArr [])),
      (''image_url'', imageUrl)]"

text \<open>Lines 9 to 39.\<close>

definition createNewProject :: "world \<Rightarrow> string \<Rightarrow> jsobj \<Rightarrow> (jsobj option) prog" where
  "createNewProject w userId projectData =
     (if userId = [] then throw (ValidationError ''User ID is required to create a project'')
      else
        bindE (if truthy (get_prop projectData ''image'')
               then uploadProjectImage w userId (get_prop projectData ''image'')
               else ret JNull) (\<lambda>imageUrl.
        bindE (store_call w (StoreInsert (newProject userId projectData imageUrl)))
          throw_or_return))"

subsection \<open>updateProject\<close>

text \<open>
  \<^verbatim>\<open>members?.includes(userId)\<close>: \<^verbatim>\<open>undefined\<close> when \<^verbatim>\<open>members\<close> is \<^verbatim>\<open>null\<close> or
  \<^verbatim>\<open>undefined\<close>; the membership test of an array; the substring test of a string; a
  \<^verbatim>\<open>TypeError\<close> on any other value, which has no \<^verbatim>\<open>includes\<close> method.
\<close>

fun optional_includes :: "jsval \<Rightarrow> string \<Rightarrow> jsval prog" where
  "optional_includes JUndefined u = ret JUndefined"
| "optional_includes JNull u = ret JUndefined"
| "optional_includes (JArr xs) u = ret (JBool (JStr u \<in> set xs))"
| "optional_includes (JStr s) u = ret (JBool (sublist u s))"
| "optional_includes _ u = throw TypeError"

text \<open>
  The condition of line 58:
  \<^verbatim>\<open>existingProject.created_by !== userId && !existingProject.members?.includes(userId)\<close>.
  The right operand is evaluated only when the left one holds.
\<close>

definition update_denied :: "jsobj \<Rightarrow> string \<Rightarrow> bool prog" where
  "update_denied existingProject userId =
     (if get_prop existingProject ''created_by'' \<noteq> JStr userId
      then bindE (optional_includes (get_prop existingProject ''members'') userId)
             (\<lambda>m. ret (\<not> truthy m))
      else ret False)"

text \<open>Lines 63 to 71: the \<^verbatim>\<open>image_url\<close> that the update stores.\<close>

definition resolve_image :: "world \<Rightarrow> string \<Rightarrow> jsobj \<Rightarrow> jsobj \<Rightarrow> jsval prog" where
  "resolve_image w userId existingProject projectData =
     (if truthy (get_prop projectData ''image'')
      then
        bindE (if truthy (get_prop existingProject ''image_url'')
               then deleteProjectImage w (get_prop existingProject ''image_url'')
               else ret JUndefined) (\<lambda>_.
        uploadProjectImage w userId (get_prop projectData ''image''))
      else ret (get_prop existingProject ''image_url''))"

text \<open>
  Lines 73 to 79: \<^verbatim>\<open>{ ...projectData, image_url: imageUrl }\<close> followed by
  \<^verbatim>\<open>delete updateData.image\<close>.
\<close>

definition updateData :: "jsobj \<Rightarrow> jsval \<Rightarrow> jsobj" where
  "updateData projectData imageUrl =
     AList.delete ''image'' (AList.update ''image_url'' imageUrl projectData)"

text \<open>
  Lines 44 to 91. When the store answers the fetch with neither a row nor an error,
  reading \<^verbatim>\<open>existingProject.created_by\<close> raises a \<^verbatim>\<open>TypeError\<close>.
\<close>

definition updateProject :: "world \<Rightarrow> string \<Rightarrow> string \<Rightarrow> jsobj \<Rightarrow> (jsobj option) prog" where
  "updateProject w projectId userId projectData =
     (if projectId = [] then throw (ValidationError ''Project ID is required to update a project'')
      else if userId = [] then throw (ValidationError ''User ID is required to update a project'')
      else
        bindE (store_call w (StoreSelectSingle projectId)) (\<lambda>(existingProject, fetchError).
        case fetchError of
          Some e \<Rightarrow> throw (StoreError e)
        | None \<Rightarrow>
            (case existingProject of
               None \<Rightarrow> throw TypeError
             | Some ex \<Rightarrow>
                 bindE (update_denied ex userId) (\<lambda>denied.
                 if denied
                 then throw (AuthorizationError ''You don't have permission to update this project'')
                 else
                   bindE (resolve_image w userId ex projectData) (\<lambda>imageUrl.
                   bindE (store_call w (StoreUpdate (updateData projectData imageUrl) projectId))
                     throw_or_return)))))"

subsection \<open>updateProjectStatus\<close>

text \<open>Lines 96 to 107. \<^verbatim>\<open>{ status }\<close> is the object with the single property \<^verbatim>\<open>status\<close>.\<close>

definition updateProjectStatus :: "world \<Rightarrow> string \<Rightarrow> string \<Rightarrow> (jsobj option) prog" where
  "updateProjectStatus w projectId status =
     bindE (store_call w (StoreUpdateMatch [(''status'', JStr status)] [(''id'', JStr projectId)]))
       throw_or_return"

subsection \<open>deleteProject\<close>

text \<open>
  Lines 112 to 142. The value that \<^verbatim>\<open>deleteProjectImage\<close> resolves to is dropped.
\<close>

definition deleteProject :: "world \<Rightarrow> string \<Rightarrow> bool prog" where
  "deleteProject w projectId =
     bindE (store_call w (StoreSelectMaybeSingle projectId)) (\<lambda>(project, fetchError).
     case fetchError of
       Some e \<Rightarrow>
         bindE (console_error ''Error fetching project for deletion:'' e) (\<lambda>_.
         throw (StoreError e))
     | None \<Rightarrow>
         bindE (case project of
                  None \<Rightarrow> ret JUndefined
                | Some p \<Rightarrow>
                    if truthy (get_prop p ''image_url'') \<and> is_string (get_prop p ''image_url'')
                    then deleteProjectImage w (get_prop p ''image_url'')
                    else ret JUndefined) (\<lambda>_.
         bindE (store_call w (StoreDelete projectId)) (\<lambda>(data, error).
         case error of
           Some e \<Rightarrow>
             bindE (console_error ''Error deleting project:'' e) (\<lambda>_.
             throw (StoreError e))
         | None \<Rightarrow> ret True)))"

section \<open>Example collaborators\<close>

text \<open>
  Concrete rows and collaborators on which the properties below are exercised: a project
  \<^verbatim>\<open>p1\<close> created by \<^verbatim>\<open>u1\<close> with member \<^verbatim>\<open>u3\<close> and a stored image; a store whose writes
  fail; an image helper whose deletions fail; a row whose \<^verbatim>\<open>image_url\<close> is the empty
  string; a row whose \<^verbatim>\<open>members\<close> is \<^verbatim>\<open>null\<close>.
\<close>

definition row_p1 :: jsobj where
  "row_p1 =
     [(''id'', JStr ''p1''), (''title'', JStr ''A''), (''created_by'', JStr ''u1''),
      (''members'', JArr [JStr ''u3'']), (''image_url'', JStr ''img/old.png'')]"

definition world_ok :: world where
  "world_ok =
     \<lparr>supabase = (\<lambda>h c. (Some row_p1, None)),
      image_service = (\<lambda>h c. Inr (JStr ''img/new.png''))\<rparr>"

definition world_insert_fails :: world where
  "world_insert_fails =
     \<lparr>supabase = (\<lambda>h c. (None, Some ''insert rejected'')),
      image_service = (\<lambda>h c. Inr (JStr ''img/new.png''))\<rparr>"

definition world_image_delete_fails :: world where
  "world_image_delete_fails =
     \<lparr>supabase = (\<lambda>h c. (Some row_p1, None)),
      image_service = (\<lambda>h c. if is_image_delete c then Inl ''storage unavailable''
                               else Inr (JStr ''img/new.png''))\<rparr>"

definition row_blank_url :: jsobj where
  "row_blank_url =
     [(''id'', JStr ''p1''), (''title'', JStr ''A''), (''created_by'', JStr ''u1''),
      (''members'', JArr []), (''image_url'', JStr '''')]"

definition world_blank_url :: world where
  "world_blank_url =
     \<lparr>supabase = (\<lambda>h c. (Some row_blank_url, None)),
      image_service = (\<lambda>h c. Inr (JStr ''img/new.png''))\<rparr>"

definition row_null_members :: jsobj where
  "row_null_members =
     [(''id'', JStr ''p1''), (''title'', JStr ''A''), (''created_by'', JStr ''u1''),
      (''members'', JNull)]"

definition world_null_members :: world where
  "world_null_members =
     \<lparr>supabase = (\<lambda>h c. (Some row_null_members, None)),
      image_service = (\<lambda>h c. Inr (JStr ''img/new.png''))\<rparr>"

section \<open>Auxiliary facts\<close>

lemmas prog_defs = ret_def throw_def bindE_def store_call_def image_call_def
  uploadProjectImage_def deleteProjectImage_def console_error_def throw_or_return_def

lemmas service_defs = createNewProject_def updateProject_def updateProjectStatus_def
  deleteProject_def update_denied_def resolve_image_def updateData_def newProject_def
  js_or_def get_prop_def

text \<open>Evaluating the authorization condition issues no call.\<close>

lemma update_denied_log: "snd (update_denied ex u h) = h"
  by (cases "get_prop ex ''members''")
     (auto simp: update_denied_def ret_def throw_def bindE_def)

lemma update_denied_cases:
  assumes "get_prop ex ''created_by'' \<noteq> JStr userId"
    and "get_prop ex ''members'' \<in> {JUndefined, JNull} \<or>
         (\<exists>ms. get_prop ex ''members'' = JArr ms \<and> JStr userId \<notin> set ms)"
  shows "update_denied ex userId h = (Inr True, h)"
  using assms by (auto simp: update_denied_def prog_defs)

lemma update_denied_allowed:
  assumes "get_prop ex ''created_by'' = JStr userId \<or>
         (\<exists>ms. get_prop ex ''members'' = JArr ms \<and> JStr userId \<in> set ms)"
  shows "update_denied ex userId h = (Inr False, h)"
  using assms by (auto simp: update_denied_def prog_defs)

text \<open>Resolving the image issues image calls only.\<close>

lemma resolve_image_log:
  "\<exists>es. snd (resolve_image w u ex pd h) = h @ es \<and> (\<forall>e\<in>set es. is_image_call e)"
  by (auto simp: resolve_image_def prog_defs split: sum.splits)

lemma resolve_image_value:
  assumes "resolve_image w userId ex projectData h0 = (Inr imageUrl, h)"
  shows "if truthy (get_prop projectData ''image'')
         then \<exists>h'. h = h' @ [UploadImage userId (get_prop projectData ''image'')] \<and>
                image_service w h' (UploadImage userId (get_prop projectData ''image'')) = Inr imageUrl
         else imageUrl = get_prop ex ''image_url'' \<and> h = h0"
  using assms
  by (auto simp: resolve_image_def prog_defs split: sum.splits if_splits)

text \<open>
  The only update call of \<open>updateProject\<close>, if any, is its last call; its payload is
  \<open>updateData\<close> at the resolved image url and its key is \<open>projectId\<close>.
\<close>

lemma updateProject_update_event:
  assumes "StoreUpdate payload pid \<in> set (snd (updateProject w projectId userId projectData []))"
  shows "\<exists>ex imageUrl h.
           fst (supabase w [] (StoreSelectSingle projectId)) = Some ex \<and>
           resolve_image w userId ex projectData [StoreSelectSingle projectId] = (Inr imageUrl, h) \<and>
           snd (updateProject w projectId userId projectData []) =
             h @ [StoreUpdate (updateData projectData imageUrl) projectId] \<and>
           payload = updateData projectData imageUrl \<and> pid = projectId"
proof -
  let ?sel = "StoreSelectSingle projectId"
  from assms have ids: "projectId \<noteq> []" "userId \<noteq> []"
    by (auto simp: updateProject_def throw_def split: if_splits)
  obtain ex0 err where f: "supabase w [] ?sel = (ex0, err)" by (cases "supabase w [] ?sel")
  from assms ids f have err: "err = None"
    by (cases err) (auto simp: updateProject_def bindE_def store_call_def throw_def)
  from assms ids f err obtain ex where ex: "ex0 = Some ex"
    by (cases ex0) (auto simp: updateProject_def bindE_def store_call_def throw_def)
  obtain dr where d: "update_denied ex userId [?sel] = (dr, [?sel])"
    using update_denied_log [of ex userId "[?sel]"] by (cases "update_denied ex userId [?sel]") auto
  from assms ids f err ex d have dr: "dr = Inr False"
    by (cases dr) (auto simp: updateProject_def bindE_def store_call_def throw_def split: if_splits)
  obtain ir h where r: "resolve_image w userId ex projectData [?sel] = (ir, h)"
    by (cases "resolve_image w userId ex projectData [?sel]")
  from resolve_image_log [of w userId ex projectData "[?sel]"] r
  obtain es where es: "h = [?sel] @ es" "\<forall>e\<in>set es. is_image_call e" by auto
  have nu: "StoreUpdate payload pid \<notin> set h" using es by auto
  from assms ids f err ex d dr r nu obtain imageUrl where ir: "ir = Inr imageUrl"
    by (cases ir) (auto simp: updateProject_def bindE_def store_call_def throw_def)
  have run: "snd (updateProject w projectId userId projectData []) =
             h @ [StoreUpdate (updateData projectData imageUrl) projectId]"
    using ids f err ex d dr r ir
    by (auto simp: updateProject_def bindE_def store_call_def throw_def ret_def throw_or_return_def
             split: prod.splits option.splits)
  with assms nu have "payload = updateData projectData imageUrl \<and> pid = projectId" by auto
  with f ex r ir run show ?thesis by auto
qed

section \<open>Properties\<close>

subsection \<open>Authorization of updates\<close>

text \<open>
  Claim C1. When the fetched record's \<^verbatim>\<open>created_by\<close> differs from \<open>userId\<close> and
  \<open>userId\<close> is not contained in the record's \<^verbatim>\<open>members\<close> (an array without it, or no
  array at all), \<open>updateProject\<close> fails with the authorization error, and the fetch is
  the only call it has issued: no update call reaches the store.
\<close>

theorem updateProject_unauthorized:
  assumes "projectId \<noteq> []" and "userId \<noteq> []"
    and "supabase w [] (StoreSelectSingle projectId) = (Some ex, None)"
    and "get_prop ex ''created_by'' \<noteq> JStr userId"
    and "get_prop ex ''members'' \<in> {JUndefined, JNull} \<or>
         (\<exists>ms. get_prop ex ''members'' = JArr ms \<and> JStr userId \<notin> set ms)"
  shows "updateProject w projectId userId projectData [] =
           (Inl (AuthorizationError ''You don't have permission to update this project''),
            [StoreSelectSingle projectId]) \<and>
         filter is_update_call (snd (updateProject w projectId userId projectData [])) = []"
proof -
  have d: "update_denied ex userId [StoreSelectSingle projectId] = (Inr True, [StoreSelectSingle projectId])"
    using assms(4,5) by (rule update_denied_cases)
  have "updateProject w projectId userId projectData [] =
           (Inl (AuthorizationError ''You don't have permission to update this project''),
            [StoreSelectSingle projectId])"
    using assms(1,2,3) d by (simp add: updateProject_def bindE_def store_call_def throw_def)
  then show ?thesis by simp
qed

text \<open>
  The scenario of the specification: project \<^verbatim>\<open>p1\<close> owned by \<^verbatim>\<open>u1\<close>, updated by
  \<^verbatim>\<open>u2\<close>, who is not a member.
\<close>

theorem updateProject_unauthorized_witness:
  "updateProject world_ok ''p1'' ''u2'' [(''title'', JStr ''B'')] [] =
     (Inl (AuthorizationError ''You don't have permission to update this project''),
      [StoreSelectSingle ''p1'']) \<and>
   filter is_update_call (snd (updateProject world_ok ''p1'' ''u2'' [(''title'', JStr ''B'')] [])) = []"
proof -
  have h1: "''p1'' \<noteq> []" and h2: "''u2'' \<noteq> []" by simp_all
  have h3: "supabase world_ok [] (StoreSelectSingle ''p1'') = (Some row_p1, None)"
    by (simp add: world_ok_def)
  have h4: "get_prop row_p1 ''created_by'' \<noteq> JStr ''u2''"
    by (simp add: get_prop_def row_p1_def)
  have h5: "get_prop row_p1 ''members'' \<in> {JUndefined, JNull} \<or>
         (\<exists>ms. get_prop row_p1 ''members'' = JArr ms \<and> JStr ''u2'' \<notin> set ms)"
    by (simp add: get_prop_def row_p1_def)
  show ?thesis by (rule updateProject_unauthorized [OF h1 h2 h3 h4 h5])
qed

text \<open>
  Claim C10. When the fetched record's \<^verbatim>\<open>members\<close> is \<^verbatim>\<open>null\<close> or absent, the optional
  chaining of line 58 makes the membership test yield \<^verbatim>\<open>undefined\<close> instead of raising:
  a \<open>userId\<close> different from \<^verbatim>\<open>created_by\<close> is refused with the authorization error,
  not with a \<^verbatim>\<open>TypeError\<close>.
\<close>

theorem updateProject_members_missing:
  assumes "projectId \<noteq> []" and "userId \<noteq> []"
    and "supabase w [] (StoreSelectSingle projectId) = (Some ex, None)"
    and "get_prop ex ''members'' = JNull \<or> get_prop ex ''members'' = JUndefined"
    and "get_prop ex ''created_by'' \<noteq> JStr userId"
  shows "fst (updateProject w projectId userId projectData []) =
           Inl (AuthorizationError ''You don't have permission to update this project'') \<and>
         fst (updateProject w projectId userId projectData []) \<noteq> Inl TypeError"
proof -
  have "update_denied ex userId [StoreSelectSingle projectId] =
          (Inr True, [StoreSelectSingle projectId])"
    using assms(4,5) by (auto simp: update_denied_def ret_def bindE_def)
  then have "fst (updateProject w projectId userId projectData []) =
           Inl (AuthorizationError ''You don't have permission to update this project'')"
    using assms(1,2,3) by (simp add: updateProject_def bindE_def store_call_def throw_def)
  then show ?thesis by simp
qed

text \<open>
  A row whose \<^verbatim>\<open>members\<close> is \<^verbatim>\<open>null\<close>, updated by a user who is not its creator.
\<close>

theorem updateProject_members_missing_witness:
  "fst (updateProject world_null_members ''p1'' ''u2'' [(''title'', JStr ''B'')] []) =
     Inl (AuthorizationError ''You don't have permission to update this project'') \<and>
   fst (updateProject world_null_members ''p1'' ''u2'' [(''title'', JStr ''B'')] []) \<noteq> Inl TypeError"
proof -
  have h1: "''p1'' \<noteq> []" and h2: "''u2'' \<noteq> []" by simp_all
  have h3: "supabase world_null_members [] (StoreSelectSingle ''p1'') = (Some row_null_members, None)"
    by (simp add: world_null_members_def)
  have h4: "get_prop row_null_members ''members'' = JNull \<or>
            get_prop row_null_members ''members'' = JUndefined"
    by (simp add: get_prop_def row_null_members_def)
  have h5: "get_prop row_null_members ''created_by'' \<noteq> JStr ''u2''"
    by (simp add: get_prop_def row_null_members_def)
  show ?thesis by (rule updateProject_members_missing [OF h1 h2 h3 h4 h5])
qed

subsection \<open>Creation\<close>

text \<open>
  Claim C3. A call of \<open>createNewProject\<close> with an empty \<open>userId\<close> fails with the
  validation error "User ID is required to create a project", and its call log is empty:
  neither the store nor the image helper is called.
\<close>

theorem createNewProject_empty_user:
  "createNewProject w [] projectData [] =
     (Inl (ValidationError ''User ID is required to create a project''), [])"
  by (simp add: createNewProject_def throw_def)

text \<open>
  An empty user id with an image supplied: nothing is uploaded.
\<close>

theorem createNewProject_empty_user_witness:
  "createNewProject world_ok [] [(''title'', JStr ''A''), (''image'', JFile ''logo.png'')] [] =
     (Inl (ValidationError ''User ID is required to create a project''), [])"
  using createNewProject_empty_user [of world_ok "[(''title'', JStr ''A''), (''image'', JFile ''logo.png'')]"]
  by simp

text \<open>
  Claim C2. In a successful call of \<open>createNewProject\<close> whose \<open>projectData\<close> leaves
  \<^verbatim>\<open>status\<close>, \<^verbatim>\<open>timeline_status\<close>, \<^verbatim>\<open>start_date\<close>, \<^verbatim>\<open>end_date\<close> and \<^verbatim>\<open>members\<close>
  unspecified (each reads as \<^verbatim>\<open>undefined\<close>), the single store call is the insert of a
  record with \<^verbatim>\<open>status\<close> \<^verbatim>\<open>"planning"\<close>, \<^verbatim>\<open>timeline_status\<close> \<^verbatim>\<open>"ongoing"\<close>, \<^verbatim>\<open>start_date\<close>
  and \<^verbatim>\<open>end_date\<close> \<^verbatim>\<open>null\<close>, \<^verbatim>\<open>members\<close> the empty array and \<^verbatim>\<open>created_by\<close> the
  \<open>userId\<close> argument.
\<close>

theorem createNewProject_defaults:
  assumes "createNewProject w userId projectData [] = (Inr row, log)"
    and "get_prop projectData ''status'' = JUndefined"
    and "get_prop projectData ''timeline_status'' = JUndefined"
    and "get_prop projectData ''start_date'' = JUndefined"
    and "get_prop projectData ''end_date'' = JUndefined"
    and "get_prop projectData ''members'' = JUndefined"
  shows "\<exists>r. filter is_store_call log = [StoreInsert r] \<and>
           map_of r ''status'' = Some (JStr ''planning'') \<and>
           map_of r ''timeline_status'' = Some (JStr ''ongoing'') \<and>
           map_of r ''start_date'' = Some JNull \<and>
           map_of r ''end_date'' = Some JNull \<and>
           map_of r ''members'' = Some (JArr []) \<and>
           map_of r ''created_by'' = Some (JStr userId)"
proof -
  from assms(1) obtain imageUrl where
    "filter is_store_call log = [StoreInsert (newProject userId projectData imageUrl)]"
    by (auto simp: createNewProject_def prog_defs split: if_splits sum.splits prod.splits option.splits)
  moreover have "map_of (newProject userId projectData imageUrl) ''status'' = Some (JStr ''planning'')"
    using assms(2) by (simp add: newProject_def js_or_def)
  moreover have "map_of (newProject userId projectData imageUrl) ''timeline_status'' = Some (JStr ''ongoing'')"
    using assms(3) by (simp add: newProject_def js_or_def)
  moreover have "map_of (newProject userId projectData imageUrl) ''start_date'' = Some JNull"
    using assms(4) by (simp add: newProject_def js_or_def)
  moreover have "map_of (newProject userId projectData imageUrl) ''end_date'' = Some JNull"
    using assms(5) by (simp add: newProject_def js_or_def)
  moreover have "map_of (newProject userId projectData imageUrl) ''members'' = Some (JArr [])"
    using assms(6) by (simp add: newProject_def js_or_def)
  moreover have "map_of (newProject userId projectData imageUrl) ''created_by'' = Some (JStr userId)"
    by (simp add: newProject_def)
  ultimately show ?thesis by blast
qed

text \<open>
  The scenario of the specification: \<^verbatim>\<open>{title: "A"}\<close> created by \<^verbatim>\<open>u1\<close>.
\<close>

theorem createNewProject_defaults_witness:
  "createNewProject world_ok ''u1'' [(''title'', JStr ''A'')] [] =
     (Inr (Some row_p1), [StoreInsert (newProject ''u1'' [(''title'', JStr ''A'')] JNull)]) \<and>
   (\<exists>r. filter is_store_call [StoreInsert (newProject ''u1'' [(''title'', JStr ''A'')] JNull)] =
           [StoreInsert r] \<and>
           map_of r ''status'' = Some (JStr ''planning'') \<and>
           map_of r ''timeline_status'' = Some (JStr ''ongoing'') \<and>
           map_of r ''start_date'' = Some JNull \<and>
           map_of r ''end_date'' = Some JNull \<and>
           map_of r ''members'' = Some (JArr []) \<and>
           map_of r ''created_by'' = Some (JStr ''u1''))"
proof -
  let ?pd = "[(''title'', JStr ''A'')]"
  have h1: "createNewProject world_ok ''u1'' ?pd [] =
     (Inr (Some row_p1), [StoreInsert (newProject ''u1'' ?pd JNull)])"
    by (simp add: createNewProject_def prog_defs world_ok_def get_prop_def)
  have h2: "get_prop ?pd ''status'' = JUndefined"
    and h3: "get_prop ?pd ''timeline_status'' = JUndefined"
    and h4: "get_prop ?pd ''start_date'' = JUndefined"
    and h5: "get_prop ?pd ''end_date'' = JUndefined"
    and h6: "get_prop ?pd ''members'' = JUndefined"
    by (simp_all add: get_prop_def)
  from createNewProject_defaults [OF h1 h2 h3 h4 h5 h6] h1 show ?thesis by blast
qed

text \<open>
  Claim C8. When \<open>createNewProject\<close> uploads an image, the upload succeeds and the
  insert that follows fails, the call fails with the store's error, and the log holds the
  upload and the insert only: no image deletion undoes the upload.
\<close>

theorem createNewProject_insert_fails_no_rollback:
  assumes "userId \<noteq> []"
    and "truthy (get_prop projectData ''image'')"
    and "image_service w [] (UploadImage userId (get_prop projectData ''image'')) = Inr url"
    and "supabase w [UploadImage userId (get_prop projectData ''image'')]
           (StoreInsert (newProject userId projectData url)) = (d, Some e)"
  shows "createNewProject w userId projectData [] =
           (Inl (StoreError e),
            [UploadImage userId (get_prop projectData ''image''),
             StoreInsert (newProject userId projectData url)]) \<and>
         filter is_image_delete (snd (createNewProject w userId projectData [])) = []"
  using assms by (simp add: createNewProject_def prog_defs)

text \<open>
  An upload that succeeds followed by an insert that the store rejects.
\<close>

theorem createNewProject_insert_fails_no_rollback_witness:
  "createNewProject world_insert_fails ''u1'' [(''title'', JStr ''A''), (''image'', JFile ''logo.png'')] [] =
     (Inl (StoreError ''insert rejected''),
      [UploadImage ''u1'' (JFile ''logo.png''),
       StoreInsert (newProject ''u1'' [(''title'', JStr ''A''), (''image'', JFile ''logo.png'')]
                      (JStr ''img/new.png''))]) \<and>
   filter is_image_delete
     (snd (createNewProject world_insert_fails ''u1''
             [(''title'', JStr ''A''), (''image'', JFile ''logo.png'')] [])) = []"
proof -
  let ?pd = "[(''title'', JStr ''A''), (''image'', JFile ''logo.png'')]"
  have f: "get_prop ?pd ''image'' = JFile ''logo.png''" by (simp add: get_prop_def)
  have h1: "''u1'' \<noteq> []" by simp
  have h2: "truthy (get_prop ?pd ''image'')" by (simp add: f)
  have h3: "image_service world_insert_fails [] (UploadImage ''u1'' (get_prop ?pd ''image'')) =
              Inr (JStr ''img/new.png'')"
    by (simp add: world_insert_fails_def)
  have h4: "supabase world_insert_fails [UploadImage ''u1'' (get_prop ?pd ''image'')]
           (StoreInsert (newProject ''u1'' ?pd (JStr ''img/new.png''))) = (None, Some ''insert rejected'')"
    by (simp add: world_insert_fails_def)
  from createNewProject_insert_fails_no_rollback [OF h1 h2 h3 h4] show ?thesis
    unfolding f by simp
qed

subsection \<open>Image replacement and the update payload\<close>

text \<open>
  Claim C5, as stated, at a record whose \<^verbatim>\<open>image_url\<close> is the empty string: the url
  is not \<^verbatim>\<open>null\<close> and an image is supplied, yet line 66 tests the truthiness of the
  url, so the new image is uploaded and no image deletion is issued.
\<close>

theorem updateProject_blank_url_counterexample:
  "get_prop row_blank_url ''image_url'' \<noteq> JNull \<and>
   truthy (get_prop [(''image'', JFile ''logo.png'')] ''image'') \<and>
   updateProject world_blank_url ''p1'' ''u1'' [(''image'', JFile ''logo.png'')] [] =
     (Inr (Some row_blank_url),
      [StoreSelectSingle ''p1'', UploadImage ''u1'' (JFile ''logo.png''),
       StoreUpdate [(''image_url'', JStr ''img/new.png'')] ''p1'']) \<and>
   filter is_image_delete
     (snd (updateProject world_blank_url ''p1'' ''u1'' [(''image'', JFile ''logo.png'')] [])) = []"
  by (simp add: service_defs prog_defs world_blank_url_def row_blank_url_def)

text \<open>
  Claim C5, amended. In a call of \<open>updateProject\<close> that passes validation, fetch and
  authorization and supplies \<^verbatim>\<open>projectData.image\<close> when the existing record has a
  non-empty (truthy) \<^verbatim>\<open>image_url\<close>, the image deletion of the old url is issued right
  after the fetch; if it fails, the call fails with that error and nothing is uploaded;
  if it succeeds, the upload of the new image is the next call.
\<close>

theorem updateProject_delete_before_upload:
  assumes "projectId \<noteq> []" and "userId \<noteq> []"
    and "supabase w [] (StoreSelectSingle projectId) = (Some ex, None)"
    and "get_prop ex ''created_by'' = JStr userId \<or>
         (\<exists>ms. get_prop ex ''members'' = JArr ms \<and> JStr userId \<in> set ms)"
    and "truthy (get_prop projectData ''image'')"
    and "truthy (get_prop ex ''image_url'')"
  shows "prefix [StoreSelectSingle projectId, DeleteImage (get_prop ex ''image_url'')]
           (snd (updateProject w projectId userId projectData [])) \<and>
         (\<forall>e. image_service w [StoreSelectSingle projectId]
                (DeleteImage (get_prop ex ''image_url'')) = Inl e \<longrightarrow>
              updateProject w projectId userId projectData [] =
                (Inl (StoreError e),
                 [StoreSelectSingle projectId, DeleteImage (get_prop ex ''image_url'')])) \<and>
         (\<forall>v. image_service w [StoreSelectSingle projectId]
                (DeleteImage (get_prop ex ''image_url'')) = Inr v \<longrightarrow>
              prefix [StoreSelectSingle projectId, DeleteImage (get_prop ex ''image_url''),
                      UploadImage userId (get_prop projectData ''image'')]
                (snd (updateProject w projectId userId projectData [])))"
proof -
  let ?sel = "StoreSelectSingle projectId"
  let ?del = "DeleteImage (get_prop ex ''image_url'')"
  let ?up = "UploadImage userId (get_prop projectData ''image'')"
  have d: "update_denied ex userId [?sel] = (Inr False, [?sel])"
    using assms(4) by (rule update_denied_allowed)
  have run: "updateProject w projectId userId projectData [] =
     (case resolve_image w userId ex projectData [?sel] of
        (Inl e, h) \<Rightarrow> (Inl e, h)
      | (Inr imageUrl, h) \<Rightarrow>
          bindE (store_call w (StoreUpdate (updateData projectData imageUrl) projectId))
            throw_or_return h)"
    using assms(1,2,3) d by (simp add: updateProject_def bindE_def store_call_def)
  have fail: "resolve_image w userId ex projectData [?sel] = (Inl (StoreError e), [?sel, ?del])"
    if "image_service w [?sel] ?del = Inl e" for e
    using that assms(5,6) by (simp add: resolve_image_def prog_defs)
  have ok: "\<exists>r. resolve_image w userId ex projectData [?sel] = (r, [?sel, ?del, ?up])"
    if "image_service w [?sel] ?del = Inr v" for v
    using that assms(5,6) by (simp add: resolve_image_def prog_defs split: sum.splits)
  have c2: "updateProject w projectId userId projectData [] = (Inl (StoreError e), [?sel, ?del])"
    if "image_service w [?sel] ?del = Inl e" for e
    using fail [OF that] run by simp
  have c3: "prefix [?sel, ?del, ?up] (snd (updateProject w projectId userId projectData []))"
    if "image_service w [?sel] ?del = Inr v" for v
  proof -
    from ok [OF that] obtain r where r: "resolve_image w userId ex projectData [?sel] = (r, [?sel, ?del, ?up])"
      by blast
    show ?thesis using run r
      by (cases r) (auto simp: prog_defs split: prod.splits option.splits)
  qed
  have c1: "prefix [?sel, ?del] (snd (updateProject w projectId userId projectData []))"
  proof (cases "image_service w [?sel] ?del")
    case (Inl e)
    from c2 [OF this] show ?thesis by simp
  next
    case (Inr v)
    from c3 [OF this] show ?thesis by (auto simp: prefix_def)
  qed
  from c1 c2 c3 show ?thesis by blast
qed

text \<open>
  The creator replaces the image of \<^verbatim>\<open>p1\<close>: once with an image helper whose deletion
  fails, once with one whose deletion succeeds.
\<close>

theorem updateProject_delete_before_upload_witness:
  "updateProject world_image_delete_fails ''p1'' ''u1'' [(''image'', JFile ''logo.png'')] [] =
     (Inl (StoreError ''storage unavailable''),
      [StoreSelectSingle ''p1'', DeleteImage (JStr ''img/old.png'')]) \<and>
   prefix [StoreSelectSingle ''p1'', DeleteImage (JStr ''img/old.png''),
           UploadImage ''u1'' (JFile ''logo.png'')]
     (snd (updateProject world_ok ''p1'' ''u1'' [(''image'', JFile ''logo.png'')] []))"
proof -
  let ?pd = "[(''image'', JFile ''logo.png'')]"
  have h1: "''p1'' \<noteq> []" and h2: "''u1'' \<noteq> []" by simp_all
  have h3: "supabase world_image_delete_fails [] (StoreSelectSingle ''p1'') = (Some row_p1, None)"
    and h3': "supabase world_ok [] (StoreSelectSingle ''p1'') = (Some row_p1, None)"
    by (simp_all add: world_image_delete_fails_def world_ok_def)
  have h4: "get_prop row_p1 ''created_by'' = JStr ''u1'' \<or>
         (\<exists>ms. get_prop row_p1 ''members'' = JArr ms \<and> JStr ''u1'' \<in> set ms)"
    by (simp add: get_prop_def row_p1_def)
  have h5: "truthy (get_prop ?pd ''image'')" by (simp add: get_prop_def)
  have h6: "truthy (get_prop row_p1 ''image_url'')" by (simp add: get_prop_def row_p1_def)
  have u: "get_prop row_p1 ''image_url'' = JStr ''img/old.png''"
    and f: "get_prop ?pd ''image'' = JFile ''logo.png''"
    by (simp_all add: get_prop_def row_p1_def)
  have d1: "image_service world_image_delete_fails [StoreSelectSingle ''p1'']
              (DeleteImage (get_prop row_p1 ''image_url'')) = Inl ''storage unavailable''"
    by (simp add: world_image_delete_fails_def)
  have d2: "image_service world_ok [StoreSelectSingle ''p1'']
              (DeleteImage (get_prop row_p1 ''image_url'')) = Inr (JStr ''img/new.png'')"
    by (simp add: world_ok_def)
  from updateProject_delete_before_upload [OF h1 h2 h3 h4 h5 h6] d1
  have a: "updateProject world_image_delete_fails ''p1'' ''u1'' ?pd [] =
     (Inl (StoreError ''storage unavailable''),
      [StoreSelectSingle ''p1'', DeleteImage (get_prop row_p1 ''image_url'')])"
    by blast
  from updateProject_delete_before_upload [OF h1 h2 h3' h4 h5 h6] d2
  have b: "prefix [StoreSelectSingle ''p1'', DeleteImage (get_prop row_p1 ''image_url''),
           UploadImage ''u1'' (get_prop ?pd ''image'')]
     (snd (updateProject world_ok ''p1'' ''u1'' ?pd []))"
    by blast
  from a b show ?thesis unfolding u f by simp
qed

text \<open>
  Claim C6. The payload of every update call that \<open>updateProject\<close> issues has no
  \<^verbatim>\<open>image\<close> property, whatever \<open>projectData\<close> carried.
\<close>

theorem updateProject_payload_without_image:
  assumes "StoreUpdate payload pid \<in> set (snd (updateProject w projectId userId projectData []))"
  shows "''image'' \<notin> fst ` set payload \<and> map_of payload ''image'' = None"
proof -
  from updateProject_update_event [OF assms] obtain imageUrl where
    "payload = updateData projectData imageUrl" by blast
  then have "map_of payload ''image'' = None"
    by (simp add: updateData_def delete_conv')
  then show ?thesis by (simp add: map_of_eq_None_iff)
qed

text \<open>
  An update that carries an image: the payload holds the title and the new url.
\<close>

theorem updateProject_payload_without_image_witness:
  "StoreUpdate [(''title'', JStr ''B''), (''image_url'', JStr ''img/new.png'')] ''p1''
     \<in> set (snd (updateProject world_ok ''p1'' ''u1''
                   [(''title'', JStr ''B''), (''image'', JFile ''logo.png'')] [])) \<and>
   ''image'' \<notin> fst ` set [(''title'', JStr ''B''), (''image_url'', JStr ''img/new.png'')] \<and>
   map_of [(''title'', JStr ''B''), (''image_url'', JStr ''img/new.png'')] ''image'' = None"
proof -
  have h: "StoreUpdate [(''title'', JStr ''B''), (''image_url'', JStr ''img/new.png'')] ''p1''
     \<in> set (snd (updateProject world_ok ''p1'' ''u1''
                   [(''title'', JStr ''B''), (''image'', JFile ''logo.png'')] []))"
    by (simp add: service_defs prog_defs world_ok_def row_p1_def)
  from updateProject_payload_without_image [OF h] h show ?thesis by blast
qed

text \<open>
  Claim C9. The payload of every update call that \<open>updateProject\<close> issues has an
  \<^verbatim>\<open>image_url\<close> property, and its value is the resolved one: the url that the image
  helper returned for the upload of \<^verbatim>\<open>projectData.image\<close> when an image is supplied, the
  existing record's \<^verbatim>\<open>image_url\<close> otherwise. An \<^verbatim>\<open>image_url\<close> inside \<open>projectData\<close>
  has no influence on it.
\<close>

theorem updateProject_payload_image_url:
  assumes "StoreUpdate payload pid \<in> set (snd (updateProject w projectId userId projectData []))"
  shows "\<exists>ex. fst (supabase w [] (StoreSelectSingle projectId)) = Some ex \<and>
           (if truthy (get_prop projectData ''image'')
            then \<exists>h url.
                   prefix (h @ [UploadImage userId (get_prop projectData ''image'')])
                     (snd (updateProject w projectId userId projectData [])) \<and>
                   image_service w h (UploadImage userId (get_prop projectData ''image'')) = Inr url \<and>
                   map_of payload ''image_url'' = Some url
            else map_of payload ''image_url'' = Some (get_prop ex ''image_url''))"
proof -
  from updateProject_update_event [OF assms] obtain ex imageUrl h where
    ex: "fst (supabase w [] (StoreSelectSingle projectId)) = Some ex"
    and r: "resolve_image w userId ex projectData [StoreSelectSingle projectId] = (Inr imageUrl, h)"
    and run: "snd (updateProject w projectId userId projectData []) =
             h @ [StoreUpdate (updateData projectData imageUrl) projectId]"
    and p: "payload = updateData projectData imageUrl" by blast
  have m: "map_of payload ''image_url'' = Some imageUrl"
    using p by (simp add: updateData_def delete_conv' update_conv')
  show ?thesis
  proof (cases "truthy (get_prop projectData ''image'')")
    case True
    with resolve_image_value [OF r] obtain h' where
      "h = h' @ [UploadImage userId (get_prop projectData ''image'')]"
      "image_service w h' (UploadImage userId (get_prop projectData ''image'')) = Inr imageUrl"
      by auto
    with run m True ex show ?thesis by (auto simp: prefix_def)
  next
    case False
    with resolve_image_value [OF r] have "imageUrl = get_prop ex ''image_url''" by simp
    with m False ex show ?thesis by simp
  qed
qed

text \<open>
  A caller who supplies an \<^verbatim>\<open>image_url\<close> of their own: the payload carries the
  existing record's url instead.
\<close>

theorem updateProject_payload_image_url_witness:
  "StoreUpdate [(''image_url'', JStr ''img/old.png''), (''title'', JStr ''B'')] ''p1''
     \<in> set (snd (updateProject world_ok ''p1'' ''u1''
                   [(''image_url'', JStr ''evil''), (''title'', JStr ''B'')] [])) \<and>
   map_of [(''image_url'', JStr ''img/old.png''), (''title'', JStr ''B'')] ''image_url'' =
     Some (get_prop row_p1 ''image_url'')"
proof -
  let ?pd = "[(''image_url'', JStr ''evil''), (''title'', JStr ''B'')]"
  have h: "StoreUpdate [(''image_url'', JStr ''img/old.png''), (''title'', JStr ''B'')] ''p1''
     \<in> set (snd (updateProject world_ok ''p1'' ''u1'' ?pd []))"
    by (simp add: service_defs prog_defs world_ok_def row_p1_def)
  have n: "\<not> truthy (get_prop ?pd ''image'')" by (simp add: get_prop_def)
  have s: "fst (supabase world_ok [] (StoreSelectSingle ''p1'')) = Some row_p1"
    by (simp add: world_ok_def)
  from updateProject_payload_image_url [OF h] n s h show ?thesis by auto
qed

subsection \<open>Status patch\<close>

text \<open>
  Claim C7. \<open>updateProjectStatus\<close> issues exactly one call: an update whose payload is
  the object with the single property \<^verbatim>\<open>status\<close>, matched by \<^verbatim>\<open>id = projectId\<close>. No
  fetch precedes it, and the call never fails with an authorization error.
\<close>

theorem updateProjectStatus_only_status:
  "snd (updateProjectStatus w projectId status []) =
     [StoreUpdateMatch [(''status'', JStr status)] [(''id'', JStr projectId)]] \<and>
   (\<forall>msg. fst (updateProjectStatus w projectId status []) \<noteq> Inl (AuthorizationError msg))"
  by (auto simp: updateProjectStatus_def prog_defs split: prod.splits option.splits)

text \<open>
  Setting the status of \<^verbatim>\<open>p1\<close>.
\<close>

theorem updateProjectStatus_only_status_witness:
  "snd (updateProjectStatus world_ok ''p1'' ''completed'' []) =
     [StoreUpdateMatch [(''status'', JStr ''completed'')] [(''id'', JStr ''p1'')]] \<and>
   fst (updateProjectStatus world_ok ''p1'' ''completed'' []) = Inr (Some row_p1)"
  using updateProjectStatus_only_status [of world_ok "''p1''" "''completed''"]
  by (simp add: updateProjectStatus_def prog_defs world_ok_def)

subsection \<open>Deletion\<close>

text \<open>
  Claim C4. Every successful call of \<open>deleteProject\<close> returns \<^verbatim>\<open>true\<close>. When no
  record has the given id and the delete succeeds, the call succeeds. When the fetched
  record has a non-empty string \<^verbatim>\<open>image_url\<close> and both the image deletion and the record
  deletion succeed, the image deletion is issued before the record deletion. When the
  fetched record has no \<^verbatim>\<open>image_url\<close>, no image deletion is issued.
\<close>

theorem deleteProject_returns_true:
  "(\<forall>b log. deleteProject w projectId [] = (Inr b, log) \<longrightarrow> b) \<and>
   (\<forall>d. supabase w [] (StoreSelectMaybeSingle projectId) = (None, None) \<and>
        supabase w [StoreSelectMaybeSingle projectId] (StoreDelete projectId) = (d, None) \<longrightarrow>
        deleteProject w projectId [] =
          (Inr True, [StoreSelectMaybeSingle projectId, StoreDelete projectId])) \<and>
   (\<forall>p s v d. supabase w [] (StoreSelectMaybeSingle projectId) = (Some p, None) \<and>
        get_prop p ''image_url'' = JStr s \<and> s \<noteq> [] \<and>
        image_service w [StoreSelectMaybeSingle projectId] (DeleteImage (JStr s)) = Inr v \<and>
        supabase w [StoreSelectMaybeSingle projectId, DeleteImage (JStr s)]
          (StoreDelete projectId) = (d, None) \<longrightarrow>
        deleteProject w projectId [] =
          (Inr True,
           [StoreSelectMaybeSingle projectId, DeleteImage (JStr s), StoreDelete projectId])) \<and>
   (\<forall>p. fst (supabase w [] (StoreSelectMaybeSingle projectId)) = Some p \<and>
        get_prop p ''image_url'' \<in> {JUndefined, JNull} \<longrightarrow>
        filter is_image_delete (snd (deleteProject w projectId [])) = [])"
proof (intro conjI allI impI)
  fix b log
  assume "deleteProject w projectId [] = (Inr b, log)"
  then show b
    by (auto simp: deleteProject_def prog_defs
             split: prod.splits option.splits sum.splits if_splits)
next
  fix d
  assume "supabase w [] (StoreSelectMaybeSingle projectId) = (None, None) \<and>
        supabase w [StoreSelectMaybeSingle projectId] (StoreDelete projectId) = (d, None)"
  then show "deleteProject w projectId [] =
          (Inr True, [StoreSelectMaybeSingle projectId, StoreDelete projectId])"
    by (simp add: deleteProject_def prog_defs)
next
  fix p s v d
  assume "supabase w [] (StoreSelectMaybeSingle projectId) = (Some p, None) \<and>
        get_prop p ''image_url'' = JStr s \<and> s \<noteq> [] \<and>
        image_service w [StoreSelectMaybeSingle projectId] (DeleteImage (JStr s)) = Inr v \<and>
        supabase w [StoreSelectMaybeSingle projectId, DeleteImage (JStr s)]
          (StoreDelete projectId) = (d, None)"
  then show "deleteProject w projectId [] =
          (Inr True,
           [StoreSelectMaybeSingle projectId, DeleteImage (JStr s), StoreDelete projectId])"
    by (simp add: deleteProject_def prog_defs)
next
  fix p
  assume "fst (supabase w [] (StoreSelectMaybeSingle projectId)) = Some p \<and>
        get_prop p ''image_url'' \<in> {JUndefined, JNull}"
  then show "filter is_image_delete (snd (deleteProject w projectId [])) = []"
    by (auto simp: deleteProject_def prog_defs split: prod.splits option.splits)
qed

text \<open>
  Deleting \<^verbatim>\<open>p1\<close>, which has a stored image.
\<close>

theorem deleteProject_returns_true_witness:
  "deleteProject world_ok ''p1'' [] =
     (Inr True,
      [StoreSelectMaybeSingle ''p1'', DeleteImage (JStr ''img/old.png''), StoreDelete ''p1''])"
proof -
  have "supabase world_ok [] (StoreSelectMaybeSingle ''p1'') = (Some row_p1, None) \<and>
        get_prop row_p1 ''image_url'' = JStr ''img/old.png'' \<and> ''img/old.png'' \<noteq> [] \<and>
        image_service world_ok [StoreSelectMaybeSingle ''p1''] (DeleteImage (JStr ''img/old.png'')) =
          Inr (JStr ''img/new.png'') \<and>
        supabase world_ok [StoreSelectMaybeSingle ''p1'', DeleteImage (JStr ''img/old.png'')]
          (StoreDelete ''p1'') = (Some row_p1, None)"
    by (simp add: world_ok_def get_prop_def row_p1_def)
  with deleteProject_returns_true [of world_ok "''p1''"] show ?thesis by blast
qed

end
